theory Spec2Isabelle
  imports Main
begin

section \<open>Data model (models/User.js, models/Submission.js)\<close>

text \<open>
  Identifiers (\<open>_id\<close>, \<open>req.params.id\<close>, the \<open>id\<close> claim of a token) are strings, as
  they arrive in a request.  A Mongoose \<open>String\<close> path that may be absent is a
  \<open>string option\<close>.  The \<open>timestamps\<close> paths are not modelled.
\<close>

record user =
  user_id :: string
  user_name :: string
  user_patientId :: "string option"
  user_email :: string
  password :: string
  role :: string

datatype status = Uploaded | Annotated | Reported

record submission =
  patient :: string
  name :: string
  patientId :: string
  email :: string
  note_text :: "string option"
  imageUrl :: string
  annotationJson :: "string option"
  annotatedImageUrl :: "string option"
  reportUrl :: "string option"
  status :: status

type_synonym users = "string \<rightharpoonup> user"
type_synonym db = "string \<rightharpoonup> submission"

section \<open>Requests, responses and the collaborators\<close>

record upload_file =
  mimetype :: string
  originalname :: string
  size :: nat

record request =
  cookie_token :: "string option"
  authorization :: "string option"
  params_id :: string
  body :: "string \<rightharpoonup> string"
  req_file :: "upload_file option"
  req_user :: "user option"

datatype body =
    Message string
  | Errors "string list"
  | Doc submission
  | MessageDoc string submission
  | MessageUrl string string
  | MessageNew string string submission

datatype response = Response (code: nat) (payload: body)

text \<open>A middleware either answers the request or calls \<open>next()\<close> with the request.\<close>

datatype mw = Respond response | Next request

text \<open>
  Library functions the code calls: \<open>jwt.verify\<close> (\<open>None\<close> when it throws, otherwise
  the decoded claims), the cast of a string to an ObjectId that every query on \<open>_id\<close>
  performs, and the \<open>isEmail\<close> validator.
\<close>

record env =
  jwtVerify :: "string \<Rightarrow> (string \<rightharpoonup> string) option"
  isObjectId :: "string \<Rightarrow> bool"
  isEmail :: "string \<Rightarrow> bool"

text \<open>
  What the outside world answers during one request: the artifact store's
  \<open>secure_url\<close> (\<open>None\<close> when the upload fails), whether the annotated image could be
  downloaded and embedded, and the \<open>_id\<close> a new document gets.
\<close>

record io =
  upload_result :: "string option"
  image_fetched :: bool
  new_id :: string

datatype exn = CastError | ValidatorError | DuplicateKey

section \<open>JavaScript helpers\<close>

definition truthy :: "string option \<Rightarrow> bool" where
  "truthy v = (case v of None \<Rightarrow> False | Some s \<Rightarrow> s \<noteq> [])"

definition startsWith :: "string \<Rightarrow> string \<Rightarrow> bool" where
  "startsWith s p = (take (length p) s = p)"

fun split :: "char \<Rightarrow> string \<Rightarrow> string list" where
  "split c [] = [] # []"
| "split c (x # xs) =
     (if x = c then [] # split c xs
      else (case split c xs of [] \<Rightarrow> [x] # [] | w # ws \<Rightarrow> (x # w) # ws))"

text \<open>\<open>xs[i]\<close>: \<open>undefined\<close> past the end of the array.\<close>

definition at_index :: "'a list \<Rightarrow> nat \<Rightarrow> 'a option" where
  "at_index xs i = (if i < length xs then Some (xs ! i) else None)"

section \<open>The record store\<close>

text \<open>
  \<open>Model.findById(id)\<close>: \<open>undefined\<close> finds nothing, a string that is no ObjectId raises
  a CastError, otherwise the document stored under the id, if any.
\<close>

definition findById :: "env \<Rightarrow> (string \<rightharpoonup> 'a) \<Rightarrow> string option \<Rightarrow> exn + 'a option" where
  "findById e m i =
     (case i of
        None \<Rightarrow> Inr None
      | Some k \<Rightarrow> if isObjectId e k then Inr (m k) else Inl CastError)"

text \<open>\<open>Submission.findOne({ _id: id, patient: owner })\<close>.\<close>

definition findOne :: "env \<Rightarrow> db \<Rightarrow> string \<Rightarrow> string \<Rightarrow> exn + submission option" where
  "findOne e d k owner =
     (if isObjectId e k
      then Inr (case d k of
                  None \<Rightarrow> None
                | Some s \<Rightarrow> if patient s = owner then Some s else None)
      else Inl CastError)"

section \<open>middleware/auth.js\<close>

definition extract_token :: "request \<Rightarrow> string option" where
  "extract_token r =
     (let token = (if truthy (cookie_token r) then cookie_token r else None)
      in if \<not> truthy token \<and> truthy (authorization r)
         then (case authorization r of
                 None \<Rightarrow> token
               | Some authHeader \<Rightarrow>
                   if startsWith authHeader ''Bearer ''
                   then at_index (split CHR '' '' authHeader) 1
                   else token)
         else token)"

definition authenticateToken :: "env \<Rightarrow> users \<Rightarrow> request \<Rightarrow> mw" where
  "authenticateToken e us r =
     (case extract_token r of
        None \<Rightarrow> Respond (Response 401 (Message ''Access denied. No token provided.''))
      | Some token \<Rightarrow>
          if token = []
          then Respond (Response 401 (Message ''Access denied. No token provided.''))
          else (case jwtVerify e token of
                  None \<Rightarrow> Respond (Response 401 (Message ''Token is invalid or expired.''))
                | Some decoded \<Rightarrow>
                    (case findById e us (decoded ''id'') of
                       Inl err \<Rightarrow>
                         Respond (Response 500 (Message ''Server error in authentication.''))
                     | Inr None \<Rightarrow>
                         Respond (Response 401 (Message ''User not found. Invalid token.''))
                     | Inr (Some u) \<Rightarrow> Next (r\<lparr>req_user := Some u\<rparr>))))"

definition authorizeRoles :: "string list \<Rightarrow> request \<Rightarrow> mw" where
  "authorizeRoles roles r =
     (case req_user r of
        None \<Rightarrow> Respond (Response 401 (Message ''Authentication required.''))
      | Some u \<Rightarrow>
          if role u \<in> set roles
          then Next r
          else Respond (Response 403 (Message ''Access denied. Insufficient permissions.'')))"

section \<open>Schema validation on the first save (models/Submission.js)\<close>

text \<open>
  \<open>new Submission({...})\<close> followed by \<open>save()\<close>: a \<open>required\<close> string path rejects
  \<open>undefined\<close> and the empty string, \<open>status\<close> takes its default, the other paths stay
  unset, and the store refuses an \<open>_id\<close> it already holds.
\<close>

definition new_Submission ::
  "string \<Rightarrow> string option \<Rightarrow> string option \<Rightarrow> string option \<Rightarrow> string option \<Rightarrow>
   string \<Rightarrow> exn + submission" where
  "new_Submission owner n p m nt url =
     (case n of
        None \<Rightarrow> Inl ValidatorError
      | Some n' \<Rightarrow>
          (case p of
             None \<Rightarrow> Inl ValidatorError
           | Some p' \<Rightarrow>
               (case m of
                  None \<Rightarrow> Inl ValidatorError
                | Some m' \<Rightarrow>
                    if n' = [] \<or> p' = [] \<or> m' = [] \<or> url = []
                    then Inl ValidatorError
                    else Inr \<lparr> patient = owner, name = n', patientId = p', email = m',
                               note_text = nt, imageUrl = url, annotationJson = None,
                               annotatedImageUrl = None, reportUrl = None,
                               status = Uploaded \<rparr>)))"

definition insert_doc :: "db \<Rightarrow> string \<Rightarrow> submission \<Rightarrow> exn + db" where
  "insert_doc d k s = (case d k of None \<Rightarrow> Inr (d(k \<mapsto> s)) | Some old \<Rightarrow> Inl DuplicateKey)"

section \<open>routes/patient.js\<close>

text \<open>
  A handler returns the response it sends (\<open>None\<close> when it sends none) and the record
  store after the request.  Every handler body runs inside \<open>try { ... } catch\<close>, which
  answers 500 \<open>Server error\<close>; reading \<open>req.user._id\<close> with no identity attached raises
  there too.  The rendered PDF is only handed to the artifact store, whose answer is
  \<open>upload_result\<close>.
\<close>

definition notEmpty :: "string option \<Rightarrow> bool" where
  "notEmpty v = (case v of None \<Rightarrow> False | Some s \<Rightarrow> s \<noteq> [])"

definition validate_upload :: "env \<Rightarrow> request \<Rightarrow> string list" where
  "validate_upload e r =
     (if notEmpty (body r ''name'') then [] else [''Name is required'']) @
     (if notEmpty (body r ''patientId'') then [] else [''Patient ID is required'']) @
     (if isEmail e (case body r ''email'' of None \<Rightarrow> [] | Some m \<Rightarrow> m) then []
      else [''Valid email is required''])"

definition upload :: "env \<Rightarrow> io \<Rightarrow> db \<Rightarrow> request \<Rightarrow> response option \<times> db" where
  "upload e x d r =
     (let errors = validate_upload e r
      in if errors \<noteq> [] then (Some (Response 400 (Errors errors)), d)
         else (case req_file r of
                 None \<Rightarrow> (Some (Response 400 (Message ''Image file is required'')), d)
               | Some f \<Rightarrow>
                   (case upload_result x of
                      None \<Rightarrow> (Some (Response 500 (Message ''Server error'')), d)
                    | Some secure_url \<Rightarrow>
                        (case req_user r of
                           None \<Rightarrow> (Some (Response 500 (Message ''Server error'')), d)
                         | Some u \<Rightarrow>
                             (case new_Submission (user_id u) (body r ''name'')
                                     (body r ''patientId'') (body r ''email'')
                                     (body r ''note'') secure_url of
                                Inl err \<Rightarrow> (Some (Response 500 (Message ''Server error'')), d)
                              | Inr s \<Rightarrow>
                                  (case insert_doc d (new_id x) s of
                                     Inl err \<Rightarrow>
                                       (Some (Response 500 (Message ''Server error'')), d)
                                   | Inr d' \<Rightarrow>
                                       (Some (Response 201
                                          (MessageNew ''Submission uploaded successfully''
                                             (new_id x) s)), d')))))))"

definition get_submission :: "env \<Rightarrow> db \<Rightarrow> request \<Rightarrow> response option \<times> db" where
  "get_submission e d r =
     (case req_user r of
        None \<Rightarrow> (Some (Response 500 (Message ''Server error'')), d)
      | Some u \<Rightarrow>
          (case findOne e d (params_id r) (user_id u) of
             Inl err \<Rightarrow> (Some (Response 500 (Message ''Server error'')), d)
           | Inr None \<Rightarrow> (Some (Response 404 (Message ''Submission not found'')), d)
           | Inr (Some s) \<Rightarrow> (Some (Response 200 (Doc s)), d)))"

definition save_annotated :: "env \<Rightarrow> io \<Rightarrow> db \<Rightarrow> request \<Rightarrow> response option \<times> db" where
  "save_annotated e x d r =
     (if \<not> truthy (body r ''annotatedImageData'')
      then (Some (Response 400 (Message ''Annotated image data is required'')), d)
      else (case req_user r of
              None \<Rightarrow> (Some (Response 500 (Message ''Server error'')), d)
            | Some u \<Rightarrow>
                (case findOne e d (params_id r) (user_id u) of
                   Inl err \<Rightarrow> (Some (Response 500 (Message ''Server error'')), d)
                 | Inr None \<Rightarrow> (Some (Response 404 (Message ''Submission not found'')), d)
                 | Inr (Some s) \<Rightarrow>
                     (case upload_result x of
                        None \<Rightarrow> (Some (Response 500 (Message ''Server error'')), d)
                      | Some secure_url \<Rightarrow>
                          (Some (Response 200
                             (MessageUrl ''Annotated image saved successfully'' secure_url)),
                           d(params_id r \<mapsto>
                               s\<lparr>annotatedImageUrl := Some secure_url,
                                 status := Annotated\<rparr>))))))"

text \<open>
  \<open>POST /generate-report/:id\<close>.  The upload is awaited inside the \<open>end\<close> listener of the
  document, outside the handler's \<open>try\<close>: when it rejects, nothing catches it and no
  response is sent.
\<close>

definition generate_report :: "env \<Rightarrow> io \<Rightarrow> db \<Rightarrow> request \<Rightarrow> response option \<times> db" where
  "generate_report e x d r =
     (case req_user r of
        None \<Rightarrow> (Some (Response 500 (Message ''Server error'')), d)
      | Some u \<Rightarrow>
          (case findOne e d (params_id r) (user_id u) of
             Inl err \<Rightarrow> (Some (Response 500 (Message ''Server error'')), d)
           | Inr None \<Rightarrow> (Some (Response 404 (Message ''Submission not found'')), d)
           | Inr (Some s) \<Rightarrow>
               (case upload_result x of
                  None \<Rightarrow> (None, d)
                | Some secure_url \<Rightarrow>
                    (Some (Response 200
                       (MessageUrl ''Report generated successfully'' secure_url)),
                     d(params_id r \<mapsto>
                         s\<lparr>reportUrl := Some secure_url, status := Reported\<rparr>)))))"

text \<open>
  The other revision of \<open>POST /generate-report/:id\<close> in routes/patient.js pipes the
  document into \<open>upload_stream\<close>, whose callback receives the error.
\<close>

definition generate_report_stream ::
  "env \<Rightarrow> io \<Rightarrow> db \<Rightarrow> request \<Rightarrow> response option \<times> db" where
  "generate_report_stream e x d r =
     (case req_user r of
        None \<Rightarrow> (Some (Response 500 (Message ''Server error'')), d)
      | Some u \<Rightarrow>
          (case findOne e d (params_id r) (user_id u) of
             Inl err \<Rightarrow> (Some (Response 500 (Message ''Server error'')), d)
           | Inr None \<Rightarrow> (Some (Response 404 (Message ''Submission not found'')), d)
           | Inr (Some s) \<Rightarrow>
               (case upload_result x of
                  None \<Rightarrow> (Some (Response 500 (Message ''Failed to upload PDF'')), d)
                | Some secure_url \<Rightarrow>
                    (Some (Response 200
                       (MessageUrl ''Report generated successfully'' secure_url)),
                     d(params_id r \<mapsto>
                         s\<lparr>reportUrl := Some secure_url, status := Reported\<rparr>)))))"

section \<open>The admin routes\<close>

definition validate_annotate :: "request \<Rightarrow> string list" where
  "validate_annotate r =
     (if notEmpty (body r ''annotationJson'') then [] else [''Annotation JSON is required'']) @
     (if notEmpty (body r ''annotatedImage'') then [] else [''Annotated image is required''])"

definition annotate :: "env \<Rightarrow> io \<Rightarrow> db \<Rightarrow> request \<Rightarrow> response option \<times> db" where
  "annotate e x d r =
     (let errors = validate_annotate r
      in if errors \<noteq> [] then (Some (Response 400 (Errors errors)), d)
         else (case findById e d (Some (params_id r)) of
                 Inl err \<Rightarrow> (Some (Response 500 (Message ''Server error'')), d)
               | Inr None \<Rightarrow> (Some (Response 404 (Message ''Submission not found'')), d)
               | Inr (Some s) \<Rightarrow>
                   (case upload_result x of
                      None \<Rightarrow> (Some (Response 500 (Message ''Server error'')), d)
                    | Some secure_url \<Rightarrow>
                        (let s' = s\<lparr>annotationJson := body r ''annotationJson'',
                                     annotatedImageUrl := Some secure_url,
                                     status := Annotated\<rparr>
                         in (Some (Response 200
                               (MessageDoc ''Annotation saved successfully'' s')),
                             d(params_id r \<mapsto> s'))))))"

definition generate_pdf :: "env \<Rightarrow> io \<Rightarrow> db \<Rightarrow> request \<Rightarrow> response option \<times> db" where
  "generate_pdf e x d r =
     (case findById e d (Some (params_id r)) of
        Inl err \<Rightarrow> (Some (Response 500 (Message ''Server error'')), d)
      | Inr None \<Rightarrow> (Some (Response 404 (Message ''Submission not found'')), d)
      | Inr (Some s) \<Rightarrow>
          if \<not> truthy (annotatedImageUrl s)
          then (Some (Response 400
                  (Message ''Annotated image is required to generate PDF'')), d)
          else if \<not> image_fetched x
          then (Some (Response 500 (Message ''Server error'')), d)
          else (case upload_result x of
                  None \<Rightarrow> (Some (Response 500 (Message ''Failed to upload PDF'')), d)
                | Some secure_url \<Rightarrow>
                    (Some (Response 200
                       (MessageUrl ''PDF generated successfully'' secure_url)),
                     d(params_id r \<mapsto>
                         s\<lparr>reportUrl := Some secure_url, status := Reported\<rparr>))))"

section \<open>The routes: middleware chain, then handler\<close>

text \<open>
  \<open>upload.single('image')\<close>: the file filter and the size limit pass their error to
  the error-handling middleware of the server, which answers 500.
\<close>

definition upload_single :: "request \<Rightarrow> mw" where
  "upload_single r =
     (case req_file r of
        None \<Rightarrow> Next r
      | Some f \<Rightarrow>
          if \<not> startsWith (mimetype f) ''image/''
          then Respond (Response 500 (Message ''Something went wrong!''))
          else if size f > 5 * 1024 * 1024
          then Respond (Response 500 (Message ''Something went wrong!''))
          else Next r)"

definition guarded ::
  "string list \<Rightarrow> env \<Rightarrow> users \<Rightarrow> db \<Rightarrow> request \<Rightarrow>
   (request \<Rightarrow> response option \<times> db) \<Rightarrow> response option \<times> db" where
  "guarded roles e us d r handler =
     (case authenticateToken e us r of
        Respond resp \<Rightarrow> (Some resp, d)
      | Next r1 \<Rightarrow>
          (case authorizeRoles roles r1 of
             Respond resp \<Rightarrow> (Some resp, d)
           | Next r2 \<Rightarrow> handler r2))"

definition route_upload ::
  "env \<Rightarrow> users \<Rightarrow> io \<Rightarrow> db \<Rightarrow> request \<Rightarrow> response option \<times> db" where
  "route_upload e us x d r =
     guarded [''patient''] e us d r
       (\<lambda>r1. case upload_single r1 of
                Respond resp \<Rightarrow> (Some resp, d)
              | Next r2 \<Rightarrow> upload e x d r2)"

definition route_get_submission ::
  "env \<Rightarrow> users \<Rightarrow> db \<Rightarrow> request \<Rightarrow> response option \<times> db" where
  "route_get_submission e us d r = guarded [''patient''] e us d r (get_submission e d)"

definition route_save_annotated ::
  "env \<Rightarrow> users \<Rightarrow> io \<Rightarrow> db \<Rightarrow> request \<Rightarrow> response option \<times> db" where
  "route_save_annotated e us x d r = guarded [''patient''] e us d r (save_annotated e x d)"

definition route_generate_report ::
  "env \<Rightarrow> users \<Rightarrow> io \<Rightarrow> db \<Rightarrow> request \<Rightarrow> response option \<times> db" where
  "route_generate_report e us x d r = guarded [''patient''] e us d r (generate_report e x d)"

definition route_annotate ::
  "env \<Rightarrow> users \<Rightarrow> io \<Rightarrow> db \<Rightarrow> request \<Rightarrow> response option \<times> db" where
  "route_annotate e us x d r = guarded [''admin''] e us d r (annotate e x d)"

definition route_generate_pdf ::
  "env \<Rightarrow> users \<Rightarrow> io \<Rightarrow> db \<Rightarrow> request \<Rightarrow> response option \<times> db" where
  "route_generate_pdf e us x d r = guarded [''admin''] e us d r (generate_pdf e x d)"

section \<open>Sequences of operations\<close>

datatype operation =
    OpUpload io request
  | OpSaveAnnotated io request
  | OpAnnotate io request
  | OpGenerateReport io request
  | OpGeneratePdf io request

fun perform :: "env \<Rightarrow> users \<Rightarrow> db \<Rightarrow> operation \<Rightarrow> response option \<times> db" where
  "perform e us d (OpUpload x r) = route_upload e us x d r"
| "perform e us d (OpSaveAnnotated x r) = route_save_annotated e us x d r"
| "perform e us d (OpAnnotate x r) = route_annotate e us x d r"
| "perform e us d (OpGenerateReport x r) = route_generate_report e us x d r"
| "perform e us d (OpGeneratePdf x r) = route_generate_pdf e us x d r"

fun run :: "env \<Rightarrow> users \<Rightarrow> db \<Rightarrow> operation list \<Rightarrow> db" where
  "run e us d [] = d"
| "run e us d (operation # rest) = run e us (snd (perform e us d operation)) rest"

text \<open>
  What one operation can do to the record store, read off the handlers: nothing, insert
  a new document in status \<open>uploaded\<close>, store an annotated image and set \<open>annotated\<close>,
  or store a report and set \<open>reported\<close>.  No handler looks at the current status.
\<close>

inductive effect :: "db \<Rightarrow> db \<Rightarrow> bool" where
  unchanged: "effect d d"
| created: "d k = None \<Longrightarrow> status s = Uploaded \<Longrightarrow> reportUrl s = None \<Longrightarrow>
            effect d (d(k \<mapsto> s))"
| annotated: "d k = Some s \<Longrightarrow>
              effect d (d(k \<mapsto> s\<lparr>annotationJson := j, annotatedImageUrl := Some a,
                                   status := Annotated\<rparr>))"
| reported: "d k = Some s \<Longrightarrow>
             effect d (d(k \<mapsto> s\<lparr>reportUrl := Some u, status := Reported\<rparr>))"

section \<open>Sample data\<close>

definition env0 :: env where
  "env0 = \<lparr> jwtVerify = (\<lambda>t. if t = ''tokA'' then Some [''id'' \<mapsto> ''aaaaaaaaaaaaaaaaaaaaaaa1'']
                            else if t = ''tokB'' then Some [''id'' \<mapsto> ''bbbbbbbbbbbbbbbbbbbbbbb2'']
                            else if t = ''tokAdmin'' then Some [''id'' \<mapsto> ''ccccccccccccccccccccccc3'']
                            else if t = ''tokGone'' then Some [''id'' \<mapsto> ''ddddddddddddddddddddddd4'']
                            else if t = ''tokX'' then Some [''id'' \<mapsto> ''not-an-id'']
                            else None),
            isObjectId = (\<lambda>k. length k = 24 \<and> list_all (\<lambda>c. c \<in> set ''0123456789abcdef'') k),
            isEmail = (\<lambda>s. CHR ''@'' \<in> set s) \<rparr>"

definition patientA :: user where
  "patientA = \<lparr> user_id = ''aaaaaaaaaaaaaaaaaaaaaaa1'', user_name = ''Jane Doe'', user_patientId = Some ''P-100'',
                user_email = ''jane@x.com'', password = ''h1'', role = ''patient'' \<rparr>"

definition patientB :: user where
  "patientB = \<lparr> user_id = ''bbbbbbbbbbbbbbbbbbbbbbb2'', user_name = ''Bo'', user_patientId = Some ''P-200'',
                user_email = ''bo@x.com'', password = ''h2'', role = ''patient'' \<rparr>"

definition admin :: user where
  "admin = \<lparr> user_id = ''ccccccccccccccccccccccc3'', user_name = ''Root'', user_patientId = None,
             user_email = ''root@x.com'', password = ''h3'', role = ''admin'' \<rparr>"

definition users0 :: users where
  "users0 = [''aaaaaaaaaaaaaaaaaaaaaaa1'' \<mapsto> patientA, ''bbbbbbbbbbbbbbbbbbbbbbb2'' \<mapsto> patientB, ''ccccccccccccccccccccccc3'' \<mapsto> admin]"

definition req0 :: request where
  "req0 = \<lparr> cookie_token = None, authorization = None, params_id = [],
            body = Map.empty, req_file = None, req_user = None \<rparr>"

definition sid :: string where
  "sid = ''5f00000000000000000000d1''"

definition io_ok :: io where
  "io_ok = \<lparr> upload_result = Some ''https://store.example/artifact'', image_fetched = True,
             new_id = sid \<rparr>"

definition io_fail :: io where
  "io_fail = \<lparr> upload_result = None, image_fetched = True, new_id = sid \<rparr>"

definition reqUpload :: request where
  "reqUpload = req0\<lparr> cookie_token := Some ''tokA'',
      body := [''name'' \<mapsto> ''Jane Doe'', ''patientId'' \<mapsto> ''P-100'',
               ''email'' \<mapsto> ''jane@x.com'', ''note'' \<mapsto> []],
      req_file := Some \<lparr> mimetype = ''image/png'', originalname = ''tooth.png'',
                         size = 1000 \<rparr> \<rparr>"

definition reqGet :: request where
  "reqGet = req0\<lparr> cookie_token := Some ''tokA'', params_id := sid \<rparr>"

definition reqA :: request where
  "reqA = req0\<lparr> cookie_token := Some ''tokA'', params_id := sid,
                 body := [''annotatedImageData'' \<mapsto> ''data:image/png;base64,AAAA''] \<rparr>"

definition reqB :: request where
  "reqB = req0\<lparr> cookie_token := Some ''tokB'', params_id := sid \<rparr>"

definition reqAdmin :: request where
  "reqAdmin = req0\<lparr> authorization := Some ''Bearer tokAdmin'', params_id := sid,
      body := [''annotationJson'' \<mapsto> ''{}'',
               ''annotatedImage'' \<mapsto> ''data:image/png;base64,BBBB''] \<rparr>"

definition jane :: submission where
  "jane = \<lparr> patient = ''aaaaaaaaaaaaaaaaaaaaaaa1'', name = ''Jane Doe'', patientId = ''P-100'',
             email = ''jane@x.com'', note_text = Some [],
             imageUrl = ''https://store.example/artifact'', annotationJson = None,
             annotatedImageUrl = None, reportUrl = None, status = Uploaded \<rparr>"

definition janeAnnotated :: submission where
  "janeAnnotated = jane\<lparr>annotatedImageUrl := Some ''https://store.example/annotated'',
                        status := Annotated\<rparr>"

definition janeReported :: submission where
  "janeReported = jane\<lparr>reportUrl := Some ''https://store.example/artifact'',
                       status := Reported\<rparr>"

section \<open>An invariant of the record store\<close>

definition reported_has_url :: "db \<Rightarrow> bool" where
  "reported_has_url d =
     (\<forall>k s. d k = Some s \<and> status s = Reported \<longrightarrow> reportUrl s \<noteq> None)"

section \<open>Unfolding the model\<close>

lemmas sample_defs = sid_def io_ok_def io_fail_def reqUpload_def reqGet_def reqA_def reqB_def
  reqAdmin_def req0_def env0_def users0_def patientA_def patientB_def admin_def jane_def
  janeAnnotated_def janeReported_def

lemmas code_defs = route_upload_def route_save_annotated_def route_annotate_def
  route_generate_report_def route_generate_pdf_def route_get_submission_def guarded_def
  authenticateToken_def extract_token_def truthy_def startsWith_def at_index_def findById_def
  findOne_def authorizeRoles_def upload_single_def upload_def validate_upload_def notEmpty_def
  new_Submission_def insert_doc_def save_annotated_def annotate_def validate_annotate_def
  generate_report_def generate_pdf_def get_submission_def Let_def

section \<open>The middleware chain\<close>

lemma guarded_snd:
  "snd (guarded roles e us d r h) = d \<or> (\<exists>r'. guarded roles e us d r h = h r')"
  by (auto simp: guarded_def split: mw.splits)

lemma guarded_pass:
  "authenticateToken e us r = Next r1 \<Longrightarrow> req_user r1 = Some u \<Longrightarrow> role u \<in> set roles \<Longrightarrow>
   guarded roles e us d r h = h r1"
  by (simp add: guarded_def authorizeRoles_def)

section \<open>What an operation does to the record store\<close>

lemma upload_effect: "effect d (snd (upload e x d r))"
  by (auto simp: upload_def Let_def new_Submission_def insert_doc_def
      split: option.splits sum.splits if_splits intro: effect.intros)

lemma save_annotated_effect: "effect d (snd (save_annotated e x d r))"
proof -
  have "effect d (d(k \<mapsto> s\<lparr>annotatedImageUrl := Some a, status := Annotated\<rparr>))"
    if "d k = Some s" for k s a
    using that effect.annotated [where d = d and k = k and s = s and j = "annotationJson s" and a = a] by simp
  then show ?thesis
    by (auto simp: save_annotated_def findOne_def
        split: option.splits sum.splits if_splits intro: effect.unchanged)
qed

lemma annotate_effect: "effect d (snd (annotate e x d r))"
  by (auto simp: annotate_def Let_def findById_def
      split: option.splits sum.splits if_splits intro: effect.intros)

lemma generate_report_effect: "effect d (snd (generate_report e x d r))"
  by (auto simp: generate_report_def findOne_def
      split: option.splits sum.splits if_splits intro: effect.intros)

lemma generate_pdf_effect: "effect d (snd (generate_pdf e x d r))"
  by (auto simp: generate_pdf_def findById_def
      split: option.splits sum.splits if_splits intro: effect.intros)

lemma guarded_effect:
  "(\<And>r'. effect d (snd (h r'))) \<Longrightarrow> effect d (snd (guarded roles e us d r h))"
  using guarded_snd [of roles e us d r h] by (auto intro: effect.unchanged)

lemma perform_effect: "effect d (snd (perform e us d opn))"
proof (cases opn)
  case (OpUpload x r)
  have "effect d (snd (case upload_single r' of
                         Respond resp \<Rightarrow> (Some resp, d)
                       | Next r2 \<Rightarrow> upload e x d r2))" for r'
    by (cases "upload_single r'") (simp_all add: effect.unchanged upload_effect)
  then show ?thesis
    using OpUpload by (simp add: route_upload_def guarded_effect)
next
  case (OpSaveAnnotated x r)
  then show ?thesis
    by (simp add: route_save_annotated_def guarded_effect save_annotated_effect)
next
  case (OpAnnotate x r)
  then show ?thesis
    by (simp add: route_annotate_def guarded_effect annotate_effect)
next
  case (OpGenerateReport x r)
  then show ?thesis
    by (simp add: route_generate_report_def guarded_effect generate_report_effect)
next
  case (OpGeneratePdf x r)
  then show ?thesis
    by (simp add: route_generate_pdf_def guarded_effect generate_pdf_effect)
qed

lemma effect_not_uploaded:
  "effect d d' \<Longrightarrow> d k = Some s \<Longrightarrow> status s \<noteq> Uploaded \<Longrightarrow>
   \<exists>s'. d' k = Some s' \<and> status s' \<noteq> Uploaded"
  by (induction rule: effect.induct) auto

lemma effect_reportUrl_kept:
  "effect d d' \<Longrightarrow> d k = Some s \<Longrightarrow> reportUrl s \<noteq> None \<Longrightarrow>
   \<exists>s'. d' k = Some s' \<and> reportUrl s' \<noteq> None"
  by (induction rule: effect.induct) auto

lemma effect_reported_has_url:
  "effect d d' \<Longrightarrow> reported_has_url d \<Longrightarrow> reported_has_url d'"
  by (induction rule: effect.induct) (auto simp: reported_has_url_def)

lemma effect_url_change:
  "effect d d' \<Longrightarrow> d k = Some s \<Longrightarrow> d' k = Some s' \<Longrightarrow> reportUrl s' \<noteq> reportUrl s \<Longrightarrow>
   status s' = Reported"
  by (induction rule: effect.induct) (auto split: if_splits)

lemma effect_becomes_reported:
  "effect d d' \<Longrightarrow> d k = Some s \<Longrightarrow> d' k = Some s' \<Longrightarrow> status s \<noteq> Reported \<Longrightarrow>
   status s' = Reported \<Longrightarrow> reportUrl s' \<noteq> None"
  by (induction rule: effect.induct) (auto split: if_splits)

lemma run_not_uploaded:
  "d k = Some s \<Longrightarrow> status s \<noteq> Uploaded \<Longrightarrow>
   \<exists>s'. run e us d ops k = Some s' \<and> status s' \<noteq> Uploaded"
proof (induction ops arbitrary: d s)
  case Nil
  then show ?case by simp
next
  case (Cons opn ops)
  from effect_not_uploaded [OF perform_effect [where d = d and e = e and us = us and opn = opn] Cons.prems]
  obtain s1 where "snd (perform e us d opn) k = Some s1" "status s1 \<noteq> Uploaded" by blast
  from Cons.IH [of "snd (perform e us d opn)" s1] this show ?case by simp
qed

lemma run_reportUrl_kept:
  "d k = Some s \<Longrightarrow> reportUrl s \<noteq> None \<Longrightarrow>
   \<exists>s'. run e us d ops k = Some s' \<and> reportUrl s' \<noteq> None"
proof (induction ops arbitrary: d s)
  case Nil
  then show ?case by simp
next
  case (Cons opn ops)
  from effect_reportUrl_kept [OF perform_effect [where d = d and e = e and us = us and opn = opn] Cons.prems]
  obtain s1 where "snd (perform e us d opn) k = Some s1" "reportUrl s1 \<noteq> None" by blast
  from Cons.IH [of "snd (perform e us d opn)" s1] this show ?case by simp
qed

lemma run_reported_has_url:
  "reported_has_url d \<Longrightarrow> reported_has_url (run e us d ops)"
  by (induction ops arbitrary: d) (simp_all add: effect_reported_has_url [OF perform_effect])

section \<open>The submission lifecycle\<close>

text \<open>
  C1 (as the code has it).  For every record store and every sequence of operations
  (upload, save-annotated, admin annotate, generate-report, generate-pdf), the status of
  a stored submission is one of \<open>uploaded\<close>, \<open>annotated\<close>, \<open>reported\<close>, and a submission
  whose status is \<open>annotated\<close> or \<open>reported\<close> stays stored and never goes back to
  \<open>uploaded\<close>.
\<close>

theorem status_never_back_to_uploaded:
  "(\<forall>k s. run e us d ops k = Some s \<longrightarrow> status s \<in> {Uploaded, Annotated, Reported}) \<and>
   (\<forall>k s. d k = Some s \<and> status s \<noteq> Uploaded \<longrightarrow>
      (\<exists>s'. run e us d ops k = Some s' \<and> status s' \<noteq> Uploaded))"
proof (intro conjI allI impI)
  fix k :: string and s :: submission
  show "status s \<in> {Uploaded, Annotated, Reported}"
    by (cases "status s") simp_all
next
  fix k s
  assume "d k = Some s \<and> status s \<noteq> Uploaded"
  then show "\<exists>s'. run e us d ops k = Some s' \<and> status s' \<noteq> Uploaded"
    using run_not_uploaded by blast
qed

theorem status_never_back_to_uploaded_witness:
  "[sid \<mapsto> janeAnnotated] sid = Some janeAnnotated \<and> status janeAnnotated \<noteq> Uploaded \<and>
   (\<exists>s'. run env0 users0 [sid \<mapsto> janeAnnotated]
            [OpGenerateReport io_ok reqA, OpSaveAnnotated io_ok reqA] sid = Some s' \<and>
         status s' \<noteq> Uploaded)"
proof -
  have stored: "[sid \<mapsto> janeAnnotated] sid = Some janeAnnotated"
    by simp
  have annotated: "status janeAnnotated \<noteq> Uploaded"
    by (simp add: janeAnnotated_def)
  from status_never_back_to_uploaded
         [of env0 users0 "[sid \<mapsto> janeAnnotated]"
             "[OpGenerateReport io_ok reqA, OpSaveAnnotated io_ok reqA]"]
  have "\<exists>s'. run env0 users0 [sid \<mapsto> janeAnnotated]
              [OpGenerateReport io_ok reqA, OpSaveAnnotated io_ok reqA] sid = Some s' \<and>
           status s' \<noteq> Uploaded"
    using stored annotated by blast
  with stored annotated show ?thesis by blast
qed

text \<open>
  The claim as written also forbids the step from \<open>reported\<close> back to \<open>annotated\<close>.
  \<open>POST /save-annotated/:id\<close> sets \<open>annotated\<close> whatever the status was: after upload
  and report generation the submission is \<open>reported\<close>, and saving an annotated image
  afterwards makes it \<open>annotated\<close> again.
\<close>

theorem save_annotated_regresses_reported:
  "map_option status
     (run env0 users0 Map.empty [OpUpload io_ok reqUpload, OpGenerateReport io_ok reqA] sid) =
     Some Reported \<and>
   map_option status
     (run env0 users0 Map.empty
        [OpUpload io_ok reqUpload, OpGenerateReport io_ok reqA, OpSaveAnnotated io_ok reqA] sid) =
     Some Annotated"
  by (simp add: sample_defs code_defs)

text \<open>
  C2 (as the code has it).  In every state reachable from the empty store a submission
  whose status is \<open>reported\<close> has a \<open>reportUrl\<close>; an operation that changes the
  \<open>reportUrl\<close> of a submission leaves it \<open>reported\<close>; an operation that makes a
  submission \<open>reported\<close> leaves it with a \<open>reportUrl\<close>; and a \<open>reportUrl\<close> once set is
  never cleared.
\<close>

theorem reported_implies_reportUrl:
  "(\<forall>k s. run e us Map.empty ops k = Some s \<and> status s = Reported \<longrightarrow> reportUrl s \<noteq> None) \<and>
   (\<forall>k s s'. d k = Some s \<and> snd (perform e us d opn) k = Some s' \<and>
        reportUrl s' \<noteq> reportUrl s \<longrightarrow> status s' = Reported) \<and>
   (\<forall>k s s'. d k = Some s \<and> snd (perform e us d opn) k = Some s' \<and>
        status s \<noteq> Reported \<and> status s' = Reported \<longrightarrow> reportUrl s' \<noteq> None) \<and>
   (\<forall>k s. d k = Some s \<and> reportUrl s \<noteq> None \<longrightarrow>
      (\<exists>s'. run e us d ops k = Some s' \<and> reportUrl s' \<noteq> None))"
proof (intro conjI)
  have "reported_has_url (run e us Map.empty ops)"
    by (rule run_reported_has_url) (simp add: reported_has_url_def)
  then show "\<forall>k s. run e us Map.empty ops k = Some s \<and> status s = Reported \<longrightarrow>
               reportUrl s \<noteq> None"
    by (simp add: reported_has_url_def)
next
  show "\<forall>k s s'. d k = Some s \<and> snd (perform e us d opn) k = Some s' \<and>
          reportUrl s' \<noteq> reportUrl s \<longrightarrow> status s' = Reported"
    using effect_url_change [OF perform_effect] by blast
next
  show "\<forall>k s s'. d k = Some s \<and> snd (perform e us d opn) k = Some s' \<and>
          status s \<noteq> Reported \<and> status s' = Reported \<longrightarrow> reportUrl s' \<noteq> None"
    using effect_becomes_reported [OF perform_effect] by blast
next
  show "\<forall>k s. d k = Some s \<and> reportUrl s \<noteq> None \<longrightarrow>
          (\<exists>s'. run e us d ops k = Some s' \<and> reportUrl s' \<noteq> None)"
    using run_reportUrl_kept by blast
qed

theorem reported_implies_reportUrl_witness:
  "run env0 users0 Map.empty [OpUpload io_ok reqUpload, OpGenerateReport io_ok reqA] sid =
     Some janeReported \<and>
   status janeReported = Reported \<and> reportUrl janeReported \<noteq> None \<and>
   [sid \<mapsto> jane] sid = Some jane \<and>
   snd (perform env0 users0 [sid \<mapsto> jane] (OpGenerateReport io_ok reqA)) sid =
     Some janeReported \<and>
   reportUrl janeReported \<noteq> reportUrl jane \<and> status jane \<noteq> Reported \<and>
   [sid \<mapsto> janeReported] sid = Some janeReported \<and>
   (\<exists>s'. run env0 users0 [sid \<mapsto> janeReported] [OpSaveAnnotated io_ok reqA] sid = Some s' \<and>
         reportUrl s' \<noteq> None)"
proof -
  have reach: "run env0 users0 Map.empty [OpUpload io_ok reqUpload, OpGenerateReport io_ok reqA]
                 sid = Some janeReported"
    by (simp add: sample_defs code_defs)
  have step: "snd (perform env0 users0 [sid \<mapsto> jane] (OpGenerateReport io_ok reqA)) sid =
                Some janeReported"
    by (simp add: sample_defs code_defs)
  have stored: "[sid \<mapsto> jane] sid = Some jane" "[sid \<mapsto> janeReported] sid = Some janeReported"
    by simp_all
  have st: "status janeReported = Reported" "status jane \<noteq> Reported"
    and url: "reportUrl janeReported \<noteq> reportUrl jane"
    by (simp_all add: janeReported_def jane_def)
  from reported_implies_reportUrl
         [of env0 users0 "[OpUpload io_ok reqUpload, OpGenerateReport io_ok reqA]"
             "[sid \<mapsto> jane]" "OpGenerateReport io_ok reqA"]
       reach st(1)
  have set: "reportUrl janeReported \<noteq> None"
    by blast
  from reported_implies_reportUrl
         [of env0 users0 "[OpSaveAnnotated io_ok reqA]" "[sid \<mapsto> janeReported]"
             "OpSaveAnnotated io_ok reqA"]
       stored(2) set
  have kept: "\<exists>s'. run env0 users0 [sid \<mapsto> janeReported] [OpSaveAnnotated io_ok reqA] sid =
                  Some s' \<and> reportUrl s' \<noteq> None"
    by blast
  from reach step stored st url set kept show ?thesis
    by blast
qed

text \<open>
  The claim as written is an equivalence.  The admin's \<open>POST /submissions/:id/annotate\<close>
  on a reported submission sets the status to \<open>annotated\<close> and leaves \<open>reportUrl\<close> in
  place, so a reachable state has a \<open>reportUrl\<close> without being \<open>reported\<close>.
\<close>

theorem annotate_keeps_reportUrl_off_reported:
  "map_option status
     (run env0 users0 Map.empty
        [OpUpload io_ok reqUpload, OpSaveAnnotated io_ok reqA, OpGeneratePdf io_ok reqAdmin,
         OpAnnotate io_ok reqAdmin] sid) = Some Annotated \<and>
   map_option reportUrl
     (run env0 users0 Map.empty
        [OpUpload io_ok reqUpload, OpSaveAnnotated io_ok reqA, OpGeneratePdf io_ok reqAdmin,
         OpAnnotate io_ok reqAdmin] sid) = Some (Some ''https://store.example/artifact'')"
  by (simp add: sample_defs code_defs)

section \<open>Report generation\<close>

text \<open>
  C3 (as the code has it).  Neither report-generation handler looks at the status.  The
  patient's generate-report, on a submission its lookup finds and with the upload
  succeeding, answers 200, stores the \<open>reportUrl\<close> and sets \<open>reported\<close>, whatever the
  status and whether or not an annotated image is set.  The admin's generate-pdf on a
  found submission answers 400 and changes nothing when \<open>annotatedImageUrl\<close> is not set,
  and otherwise (image downloaded, upload succeeding) answers 200, stores the
  \<open>reportUrl\<close> and sets \<open>reported\<close>.
\<close>

theorem report_generation_guards:
  "(\<forall>u s url. req_user r = Some u \<and> findOne e d (params_id r) (user_id u) = Inr (Some s) \<and>
        upload_result x = Some url \<longrightarrow>
      generate_report e x d r =
        (Some (Response 200 (MessageUrl ''Report generated successfully'' url)),
         d(params_id r \<mapsto> s\<lparr>reportUrl := Some url, status := Reported\<rparr>))) \<and>
   (\<forall>s. findById e d (Some (params_id r)) = Inr (Some s) \<and> \<not> truthy (annotatedImageUrl s) \<longrightarrow>
      generate_pdf e x d r =
        (Some (Response 400 (Message ''Annotated image is required to generate PDF'')), d)) \<and>
   (\<forall>s url. findById e d (Some (params_id r)) = Inr (Some s) \<and> truthy (annotatedImageUrl s) \<and>
        image_fetched x \<and> upload_result x = Some url \<longrightarrow>
      generate_pdf e x d r =
        (Some (Response 200 (MessageUrl ''PDF generated successfully'' url)),
         d(params_id r \<mapsto> s\<lparr>reportUrl := Some url, status := Reported\<rparr>)))"
  by (simp add: generate_report_def generate_pdf_def)

theorem report_generation_guards_witness:
  "generate_report env0 io_ok [sid \<mapsto> jane] (reqA\<lparr>req_user := Some patientA\<rparr>) =
     (Some (Response 200
        (MessageUrl ''Report generated successfully'' ''https://store.example/artifact'')),
      [sid \<mapsto> jane\<lparr>reportUrl := Some ''https://store.example/artifact'',
                     status := Reported\<rparr>]) \<and>
   generate_pdf env0 io_ok [sid \<mapsto> jane] reqAdmin =
     (Some (Response 400 (Message ''Annotated image is required to generate PDF'')),
      [sid \<mapsto> jane]) \<and>
   generate_pdf env0 io_ok [sid \<mapsto> janeAnnotated] reqAdmin =
     (Some (Response 200
        (MessageUrl ''PDF generated successfully'' ''https://store.example/artifact'')),
      [sid \<mapsto> janeAnnotated\<lparr>reportUrl := Some ''https://store.example/artifact'',
                              status := Reported\<rparr>])"
  using report_generation_guards [of "reqA\<lparr>req_user := Some patientA\<rparr>" env0 "[sid \<mapsto> jane]" io_ok]
    report_generation_guards [of reqAdmin env0 "[sid \<mapsto> jane]" io_ok]
    report_generation_guards [of reqAdmin env0 "[sid \<mapsto> janeAnnotated]" io_ok]
  by (simp add: sample_defs janeAnnotated_def findOne_def findById_def truthy_def)

text \<open>
  The claim as written makes both variants applicable only to an \<open>annotated\<close>
  submission.  The patient's generate-report succeeds on a submission that is still
  \<open>uploaded\<close> and has no annotated image.
\<close>

theorem generate_report_on_uploaded:
  "status jane = Uploaded \<and> annotatedImageUrl jane = None \<and>
   route_generate_report env0 users0 io_ok [sid \<mapsto> jane] reqA =
     (Some (Response 200
        (MessageUrl ''Report generated successfully'' ''https://store.example/artifact'')),
      [sid \<mapsto> jane\<lparr>reportUrl := Some ''https://store.example/artifact'',
                     status := Reported\<rparr>])"
  by (simp add: sample_defs code_defs)

text \<open>
  C4.  When an admin calls generate-pdf on an existing submission whose
  \<open>annotatedImageUrl\<close> is null, the response is 400 and the record store is unchanged.
\<close>

theorem generate_pdf_requires_annotated_image:
  assumes "authenticateToken e us r = Next (r\<lparr>req_user := Some u\<rparr>)"
    and "role u = ''admin''"
    and "isObjectId e (params_id r)"
    and "d (params_id r) = Some s"
    and "annotatedImageUrl s = None"
  shows "route_generate_pdf e us x d r =
           (Some (Response 400 (Message ''Annotated image is required to generate PDF'')), d)"
proof -
  have "route_generate_pdf e us x d r = generate_pdf e x d (r\<lparr>req_user := Some u\<rparr>)"
    unfolding route_generate_pdf_def using assms(1,2) by (simp add: guarded_pass)
  then show ?thesis
    using assms(3-5) by (simp add: generate_pdf_def findById_def truthy_def)
qed

theorem generate_pdf_requires_annotated_image_witness:
  "authenticateToken env0 users0 reqAdmin = Next (reqAdmin\<lparr>req_user := Some admin\<rparr>) \<and>
   role admin = ''admin'' \<and> isObjectId env0 (params_id reqAdmin) \<and>
   [sid \<mapsto> jane] (params_id reqAdmin) = Some jane \<and> annotatedImageUrl jane = None \<and>
   route_generate_pdf env0 users0 io_ok [sid \<mapsto> jane] reqAdmin =
     (Some (Response 400 (Message ''Annotated image is required to generate PDF'')),
      [sid \<mapsto> jane])"
proof -
  have a: "authenticateToken env0 users0 reqAdmin = Next (reqAdmin\<lparr>req_user := Some admin\<rparr>)"
    by (simp add: sample_defs authenticateToken_def extract_token_def truthy_def startsWith_def
        at_index_def findById_def)
  have b: "role admin = ''admin''" by (simp add: admin_def)
  have c: "isObjectId env0 (params_id reqAdmin)" by (simp add: sample_defs)
  have d: "[sid \<mapsto> jane] (params_id reqAdmin) = Some jane" by (simp add: sample_defs)
  have f: "annotatedImageUrl jane = None" by (simp add: jane_def)
  from generate_pdf_requires_annotated_image
         [where e = env0 and us = users0 and r = reqAdmin and u = admin
            and d = "[sid \<mapsto> jane]" and s = jane and x = io_ok] a b c d f
  show ?thesis by simp
qed

section \<open>Ownership\<close>

text \<open>
  C5 (as the code has it).  For a requester with role \<open>patient\<close> and a stored submission
  whose owner is another user, get-by-id and generate-report answer 404, and
  save-annotated answers 404 when the request carries annotated image data and 400
  when it carries none (the payload is checked before the lookup); none of them answers
  403 and none changes the record store.
\<close>

theorem foreign_submission_not_found:
  assumes "authenticateToken e us r = Next (r\<lparr>req_user := Some u\<rparr>)"
    and "role u = ''patient''"
    and "isObjectId e (params_id r)"
    and "d (params_id r) = Some s"
    and "patient s \<noteq> user_id u"
  shows "route_get_submission e us d r =
           (Some (Response 404 (Message ''Submission not found'')), d) \<and>
         route_generate_report e us x d r =
           (Some (Response 404 (Message ''Submission not found'')), d) \<and>
         route_save_annotated e us x d r =
           (if truthy (body r ''annotatedImageData'')
            then Some (Response 404 (Message ''Submission not found''))
            else Some (Response 400 (Message ''Annotated image data is required'')), d)"
proof -
  have pass: "guarded [''patient''] e us d r h = h (r\<lparr>req_user := Some u\<rparr>)" for h
    using assms(1,2) by (simp add: guarded_pass)
  have none: "findOne e d (params_id r) (user_id u) = Inr None"
    using assms(3-5) by (simp add: findOne_def)
  show ?thesis
    by (simp add: route_get_submission_def route_generate_report_def route_save_annotated_def
        pass get_submission_def generate_report_def save_annotated_def none)
qed

theorem foreign_submission_not_found_witness:
  "authenticateToken env0 users0 reqB = Next (reqB\<lparr>req_user := Some patientB\<rparr>) \<and>
   role patientB = ''patient'' \<and> isObjectId env0 (params_id reqB) \<and>
   [sid \<mapsto> jane] (params_id reqB) = Some jane \<and> patient jane \<noteq> user_id patientB \<and>
   route_get_submission env0 users0 [sid \<mapsto> jane] reqB =
     (Some (Response 404 (Message ''Submission not found'')), [sid \<mapsto> jane]) \<and>
   route_generate_report env0 users0 io_ok [sid \<mapsto> jane] reqB =
     (Some (Response 404 (Message ''Submission not found'')), [sid \<mapsto> jane]) \<and>
   route_save_annotated env0 users0 io_ok [sid \<mapsto> jane]
       (reqB\<lparr>body := [''annotatedImageData'' \<mapsto> ''data:image/png;base64,CCCC'']\<rparr>) =
     (Some (Response 404 (Message ''Submission not found'')), [sid \<mapsto> jane])"
proof -
  let ?r = "reqB\<lparr>body := [''annotatedImageData'' \<mapsto> ''data:image/png;base64,CCCC'']\<rparr>"
  have a: "authenticateToken env0 users0 reqB = Next (reqB\<lparr>req_user := Some patientB\<rparr>)"
    and a': "authenticateToken env0 users0 ?r = Next (?r\<lparr>req_user := Some patientB\<rparr>)"
    by (simp_all add: sample_defs authenticateToken_def extract_token_def truthy_def findById_def)
  have b: "role patientB = ''patient''" by (simp add: patientB_def)
  have c: "isObjectId env0 (params_id reqB)" and c': "isObjectId env0 (params_id ?r)"
    by (simp_all add: sample_defs)
  have d: "[sid \<mapsto> jane] (params_id reqB) = Some jane"
    and d': "[sid \<mapsto> jane] (params_id ?r) = Some jane"
    by (simp_all add: sample_defs)
  have f: "patient jane \<noteq> user_id patientB" by (simp add: jane_def patientB_def)
  from foreign_submission_not_found
         [where e = env0 and us = users0 and r = reqB and u = patientB
            and d = "[sid \<mapsto> jane]" and s = jane and x = io_ok]
    foreign_submission_not_found
         [where e = env0 and us = users0 and r = ?r and u = patientB
            and d = "[sid \<mapsto> jane]" and s = jane and x = io_ok]
    a a' b c c' d d' f
  show ?thesis by (simp add: truthy_def)
qed

text \<open>
  The claim as written gives 404 for every operation on a foreign submission.
  save-annotated without image data answers 400 before it looks the submission up.
\<close>

theorem save_annotated_foreign_without_payload:
  "patient jane \<noteq> user_id patientB \<and> body reqB ''annotatedImageData'' = None \<and>
   route_save_annotated env0 users0 io_ok [sid \<mapsto> jane] reqB =
     (Some (Response 400 (Message ''Annotated image data is required'')), [sid \<mapsto> jane])"
  by (simp add: sample_defs code_defs)

section \<open>Failure of the artifact store\<close>

text \<open>
  C6.  When the artifact store rejects the report upload, the submission must stay as
  it was and the caller must get an error.  In \<open>POST /generate-report/:id\<close> the
  submission stays as it was, but the rejection is raised inside the \<open>end\<close> listener,
  where nothing catches it: the handler sends no response at all.
\<close>

theorem generate_report_upload_failure:
  "upload_result io_fail = None \<and>
   route_generate_report env0 users0 io_fail [sid \<mapsto> jane] reqA = (None, [sid \<mapsto> jane])"
  by (simp add: sample_defs code_defs)

text \<open>
  The record store is left alone on that path too; generate-pdf and the
  \<open>upload_stream\<close> revision of generate-report answer 500 and change nothing.
\<close>

lemma generate_report_upload_rejected:
  "upload_result x = None \<Longrightarrow> snd (generate_report e x d r) = d"
  by (simp add: generate_report_def split: option.splits sum.splits)

lemma generate_report_stream_upload_rejected:
  "upload_result x = None \<Longrightarrow>
   \<exists>c m. generate_report_stream e x d r = (Some (Response c (Message m)), d) \<and> 400 \<le> c"
  by (simp add: generate_report_stream_def split: option.splits sum.splits)

lemma generate_pdf_upload_rejected:
  "upload_result x = None \<Longrightarrow>
   \<exists>c m. generate_pdf e x d r = (Some (Response c (Message m)), d) \<and> 400 \<le> c"
  by (simp add: generate_pdf_def split: option.splits sum.splits)

section \<open>The Credential Verifier\<close>

text \<open>
  C7 (as the code has it).  \<open>authenticateToken\<close> answers 401 in exactly three cases: no
  token, a token that \<open>jwt.verify\<close> rejects (one message, whatever the reason), and a
  subject that the user lookup does not find.  When the user lookup itself raises (the
  subject is no ObjectId) it answers 500.  Otherwise it calls \<open>next()\<close> with the found
  user attached to the request and nothing else changed.  A non-empty cookie token is
  the token used, whatever the \<open>Authorization\<close> header holds.
\<close>

theorem authenticateToken_contract:
  "(\<not> truthy (extract_token r) \<longrightarrow>
      authenticateToken e us r =
        Respond (Response 401 (Message ''Access denied. No token provided.''))) \<and>
   (\<forall>t. extract_token r = Some t \<and> t \<noteq> [] \<and> jwtVerify e t = None \<longrightarrow>
      authenticateToken e us r =
        Respond (Response 401 (Message ''Token is invalid or expired.''))) \<and>
   (\<forall>t c. extract_token r = Some t \<and> t \<noteq> [] \<and> jwtVerify e t = Some c \<and>
          findById e us (c ''id'') = Inr None \<longrightarrow>
      authenticateToken e us r =
        Respond (Response 401 (Message ''User not found. Invalid token.''))) \<and>
   (\<forall>t c err. extract_token r = Some t \<and> t \<noteq> [] \<and> jwtVerify e t = Some c \<and>
          findById e us (c ''id'') = Inl err \<longrightarrow>
      authenticateToken e us r =
        Respond (Response 500 (Message ''Server error in authentication.''))) \<and>
   (\<forall>t c u. extract_token r = Some t \<and> t \<noteq> [] \<and> jwtVerify e t = Some c \<and>
          findById e us (c ''id'') = Inr (Some u) \<longrightarrow>
      authenticateToken e us r = Next (r\<lparr>req_user := Some u\<rparr>)) \<and>
   (\<forall>t. cookie_token r = Some t \<and> t \<noteq> [] \<longrightarrow> extract_token r = Some t) \<and>
   ((\<exists>m. authenticateToken e us r = Respond (Response 401 m)) =
    (\<not> truthy (extract_token r) \<or>
     (\<exists>t. extract_token r = Some t \<and>
        (jwtVerify e t = None \<or>
         (\<exists>c. jwtVerify e t = Some c \<and> findById e us (c ''id'') = Inr None)))))"
proof (intro conjI)
  show "(\<exists>m. authenticateToken e us r = Respond (Response 401 m)) =
    (\<not> truthy (extract_token r) \<or>
     (\<exists>t. extract_token r = Some t \<and>
        (jwtVerify e t = None \<or>
         (\<exists>c. jwtVerify e t = Some c \<and> findById e us (c ''id'') = Inr None))))"
    by (auto simp: authenticateToken_def truthy_def split: option.splits sum.splits)
  show "\<forall>t. cookie_token r = Some t \<and> t \<noteq> [] \<longrightarrow> extract_token r = Some t"
    by (simp add: extract_token_def truthy_def)
qed (auto simp: authenticateToken_def truthy_def split: option.splits)

theorem authenticateToken_contract_witness:
  "authenticateToken env0 users0 req0 =
     Respond (Response 401 (Message ''Access denied. No token provided.'')) \<and>
   authenticateToken env0 users0 (req0\<lparr>cookie_token := Some ''forged''\<rparr>) =
     Respond (Response 401 (Message ''Token is invalid or expired.'')) \<and>
   authenticateToken env0 users0 (req0\<lparr>cookie_token := Some ''tokGone''\<rparr>) =
     Respond (Response 401 (Message ''User not found. Invalid token.'')) \<and>
   authenticateToken env0 users0 (req0\<lparr>cookie_token := Some ''tokX''\<rparr>) =
     Respond (Response 500 (Message ''Server error in authentication.'')) \<and>
   authenticateToken env0 users0
       (req0\<lparr>cookie_token := Some ''tokA'', authorization := Some ''Bearer tokB''\<rparr>) =
     Next (req0\<lparr>cookie_token := Some ''tokA'', authorization := Some ''Bearer tokB'',
                req_user := Some patientA\<rparr>) \<and>
   authenticateToken env0 users0 (req0\<lparr>authorization := Some ''Bearer tokB''\<rparr>) =
     Next (req0\<lparr>authorization := Some ''Bearer tokB'', req_user := Some patientB\<rparr>)"
  using authenticateToken_contract [of req0 env0 users0]
    authenticateToken_contract [of "req0\<lparr>cookie_token := Some ''forged''\<rparr>" env0 users0]
    authenticateToken_contract [of "req0\<lparr>cookie_token := Some ''tokGone''\<rparr>" env0 users0]
    authenticateToken_contract [of "req0\<lparr>cookie_token := Some ''tokX''\<rparr>" env0 users0]
    authenticateToken_contract
      [of "req0\<lparr>cookie_token := Some ''tokA'', authorization := Some ''Bearer tokB''\<rparr>"
          env0 users0]
    authenticateToken_contract [of "req0\<lparr>authorization := Some ''Bearer tokB''\<rparr>" env0 users0]
  by (simp add: extract_token_def truthy_def startsWith_def at_index_def findById_def req0_def
      env0_def users0_def)

text \<open>
  The claim as written knows only 401 and success.  A token that verifies but whose
  subject is no ObjectId makes \<open>User.findById\<close> raise, and the outer \<open>catch\<close> answers
  500: no user is found for the subject, yet the answer is not 401.
\<close>

theorem authenticateToken_lookup_raises:
  "extract_token (req0\<lparr>cookie_token := Some ''tokX''\<rparr>) = Some ''tokX'' \<and>
   jwtVerify env0 ''tokX'' = Some [''id'' \<mapsto> ''not-an-id''] \<and>
   users0 ''not-an-id'' = None \<and>
   authenticateToken env0 users0 (req0\<lparr>cookie_token := Some ''tokX''\<rparr>) =
     Respond (Response 500 (Message ''Server error in authentication.''))"
  by (simp add: authenticateToken_def extract_token_def truthy_def req0_def env0_def users0_def
      findById_def)

section \<open>The Role Gate\<close>

text \<open>
  C8.  For every list of permitted role names and every request, \<open>authorizeRoles\<close>
  answers 401 when no identity is attached, answers 403 when the attached identity's
  role is not among the permitted names, and otherwise calls \<open>next()\<close> with the request
  unchanged; it returns nothing else, so it has no other effect.
\<close>

theorem authorizeRoles_contract:
  "(req_user r = None \<longrightarrow>
      authorizeRoles roles r = Respond (Response 401 (Message ''Authentication required.''))) \<and>
   (\<forall>u. req_user r = Some u \<and> role u \<notin> set roles \<longrightarrow>
      authorizeRoles roles r =
        Respond (Response 403 (Message ''Access denied. Insufficient permissions.''))) \<and>
   (\<forall>u. req_user r = Some u \<and> role u \<in> set roles \<longrightarrow> authorizeRoles roles r = Next r)"
  by (simp add: authorizeRoles_def)

theorem authorizeRoles_contract_witness:
  "authorizeRoles [''patient''] req0 =
     Respond (Response 401 (Message ''Authentication required.'')) \<and>
   authorizeRoles [''patient''] (req0\<lparr>req_user := Some admin\<rparr>) =
     Respond (Response 403 (Message ''Access denied. Insufficient permissions.'')) \<and>
   authorizeRoles [''patient'', ''admin''] (req0\<lparr>req_user := Some admin\<rparr>) =
     Next (req0\<lparr>req_user := Some admin\<rparr>)"
  using authorizeRoles_contract [of req0 "[''patient'']"]
    authorizeRoles_contract [of "req0\<lparr>req_user := Some admin\<rparr>" "[''patient'']"]
    authorizeRoles_contract [of "req0\<lparr>req_user := Some admin\<rparr>" "[''patient'', ''admin'']"]
  by (simp add: req0_def admin_def)

text \<open>
  C10.  Built with no permitted role name, \<open>authorizeRoles\<close> answers 403 to every
  request that carries an identity, whatever its role.
\<close>

theorem authorizeRoles_empty:
  "req_user r = Some u \<Longrightarrow>
   authorizeRoles [] r =
     Respond (Response 403 (Message ''Access denied. Insufficient permissions.''))"
  by (simp add: authorizeRoles_def)

theorem authorizeRoles_empty_witness:
  "req_user (req0\<lparr>req_user := Some admin\<rparr>) = Some admin \<and>
   authorizeRoles [] (req0\<lparr>req_user := Some admin\<rparr>) =
     Respond (Response 403 (Message ''Access denied. Insufficient permissions.''))"
  using authorizeRoles_empty [of "req0\<lparr>req_user := Some admin\<rparr>" admin]
  by simp

section \<open>Upload and retrieval\<close>

text \<open>
  C9.  After a patient uploads a submission with name \<open>Jane Doe\<close>, patientId \<open>P-100\<close>,
  email \<open>jane@x.com\<close> and an empty note (an image file attached, the artifact store and
  the record store accepting it), retrieving the submission by its id as the same
  patient returns the same name, patientId, email and note, with status \<open>uploaded\<close>.
\<close>

theorem upload_then_get_roundtrip:
  assumes "authenticateToken e us r = Next (r\<lparr>req_user := Some u\<rparr>)"
    and "authenticateToken e us r' = Next (r'\<lparr>req_user := Some u\<rparr>)"
    and "role u = ''patient''"
    and "body r ''name'' = Some ''Jane Doe''"
    and "body r ''patientId'' = Some ''P-100''"
    and "body r ''email'' = Some ''jane@x.com''"
    and "body r ''note'' = Some []"
    and "isEmail e ''jane@x.com''"
    and "req_file r = Some f"
    and "startsWith (mimetype f) ''image/''"
    and "size f \<le> 5 * 1024 * 1024"
    and "upload_result x = Some url"
    and "url \<noteq> []"
    and "d (new_id x) = None"
    and "isObjectId e (new_id x)"
    and "params_id r' = new_id x"
  shows "\<exists>s d'. route_upload e us x d r =
             (Some (Response 201
                (MessageNew ''Submission uploaded successfully'' (new_id x) s)), d') \<and>
           route_get_submission e us d' r' = (Some (Response 200 (Doc s)), d') \<and>
           name s = ''Jane Doe'' \<and> patientId s = ''P-100'' \<and> email s = ''jane@x.com'' \<and>
           note_text s = Some [] \<and> status s = Uploaded"
proof -
  let ?s = "\<lparr> patient = user_id u, name = ''Jane Doe'', patientId = ''P-100'',
             email = ''jane@x.com'', note_text = Some [], imageUrl = url,
             annotationJson = None, annotatedImageUrl = None, reportUrl = None,
             status = Uploaded \<rparr>"
  let ?r1 = "r\<lparr>req_user := Some u\<rparr>"
  have pass: "guarded [''patient''] e us d0 r h = h ?r1" for h d0
    using assms(1,3) by (simp add: guarded_pass)
  have pass': "guarded [''patient''] e us d0 r' h = h (r'\<lparr>req_user := Some u\<rparr>)" for h d0
    using assms(2,3) by (simp add: guarded_pass)
  have multer: "upload_single ?r1 = Next ?r1"
    using assms(9-11) by (simp add: upload_single_def)
  have valid: "validate_upload e ?r1 = []"
    using assms(4-8) by (simp add: validate_upload_def notEmpty_def)
  have new: "new_Submission (user_id u) (body r ''name'') (body r ''patientId'')
               (body r ''email'') (body r ''note'') url = Inr ?s"
    using assms(4-7,13) by (simp add: new_Submission_def)
  have up: "upload e x d ?r1 =
              (Some (Response 201 (MessageNew ''Submission uploaded successfully'' (new_id x) ?s)),
               d(new_id x \<mapsto> ?s))"
    using assms(9,12,14) by (simp add: upload_def valid new insert_doc_def)
  have 1: "route_upload e us x d r =
              (Some (Response 201 (MessageNew ''Submission uploaded successfully'' (new_id x) ?s)),
               d(new_id x \<mapsto> ?s))"
    by (simp add: route_upload_def pass multer up)
  have 2: "route_get_submission e us (d(new_id x \<mapsto> ?s)) r' =
             (Some (Response 200 (Doc ?s)), d(new_id x \<mapsto> ?s))"
    using assms(15,16) by (simp add: route_get_submission_def pass' get_submission_def findOne_def)
  from 1 2 show ?thesis by simp
qed

theorem upload_then_get_roundtrip_witness:
  "route_upload env0 users0 io_ok Map.empty reqUpload =
     (Some (Response 201 (MessageNew ''Submission uploaded successfully'' sid jane)),
      [sid \<mapsto> jane]) \<and>
   route_get_submission env0 users0 [sid \<mapsto> jane] reqGet =
     (Some (Response 200 (Doc jane)), [sid \<mapsto> jane]) \<and>
   name jane = ''Jane Doe'' \<and> patientId jane = ''P-100'' \<and> email jane = ''jane@x.com'' \<and>
   note_text jane = Some [] \<and> status jane = Uploaded"
proof -
  have a: "authenticateToken env0 users0 reqUpload = Next (reqUpload\<lparr>req_user := Some patientA\<rparr>)"
    and a': "authenticateToken env0 users0 reqGet = Next (reqGet\<lparr>req_user := Some patientA\<rparr>)"
    by (simp_all add: sample_defs reqGet_def authenticateToken_def extract_token_def truthy_def
        findById_def)
  have "\<exists>s d'. route_upload env0 users0 io_ok Map.empty reqUpload =
             (Some (Response 201
                (MessageNew ''Submission uploaded successfully'' (new_id io_ok) s)), d') \<and>
           route_get_submission env0 users0 d' reqGet = (Some (Response 200 (Doc s)), d') \<and>
           name s = ''Jane Doe'' \<and> patientId s = ''P-100'' \<and> email s = ''jane@x.com'' \<and>
           note_text s = Some [] \<and> status s = Uploaded"
    by (rule upload_then_get_roundtrip [OF a a', where url = "''https://store.example/artifact''"
          and f = "\<lparr> mimetype = ''image/png'', originalname = ''tooth.png'', size = 1000 \<rparr>"])
       (simp_all add: sample_defs reqGet_def startsWith_def)
  moreover have "route_upload env0 users0 io_ok Map.empty reqUpload =
     (Some (Response 201 (MessageNew ''Submission uploaded successfully'' sid jane)),
      [sid \<mapsto> jane])"
    by (simp add: sample_defs code_defs)
  ultimately show ?thesis by (auto simp: jane_def)
qed

end
